theory Spec2Isabelle
  imports Main "HOL-Library.Word"
begin

section \<open>Local attestation slashing protection (validator/client/attest\_protect.go)\<close>

text \<open>
  The development embeds the functions of \<^verbatim>\<open>attest_protect.go\<close> that decide whether
  an attestation may be signed: \<^verbatim>\<open>safeTargetToSource\<close>, \<^verbatim>\<open>isNewAttSlashable\<close>,
  \<^verbatim>\<open>markAttestationForTargetEpoch\<close> and the two callers \<^verbatim>\<open>preAttSignValidations\<close> and
  \<^verbatim>\<open>postAttSignUpdate\<close>.

  Conventions.
  \<^item> Go's \<^verbatim>\<open>uint64\<close> is \<open>64 word\<close>: \<open>+\<close> and \<open>-\<close> wrap, \<open>\<le>\<close> and \<open><\<close> compare unsigned.
  \<^item> Go's \<^verbatim>\<open>int(x)\<close> of a \<^verbatim>\<open>uint64\<close> (on a 64-bit platform) keeps the bits and reads them
    in two's complement, and \<^verbatim>\<open>int\<close> subtraction wraps: \<^verbatim>\<open>int(a) <= int(b)-int(c)\<close> is
    \<open>sint a \<le> sint (b - c)\<close>.
  \<^item> A Go pointer that may be \<^verbatim>\<open>nil\<close> is an \<open>option\<close>; \<^verbatim>\<open>[]byte\<close> is a list of bytes and
    \<^verbatim>\<open>bytes.Equal\<close> is list equality (a \<^verbatim>\<open>nil\<close> slice is the empty list).
  \<^item> A run-time panic is a value \<open>Inl p\<close> of the result; an error return of the persistent
    store is a value \<open>Inl e\<close> of the store accessor.
  \<^item> A \<^verbatim>\<open>for\<close> loop over \<^verbatim>\<open>uint64\<close> whose bound may be \<open>2^64 - 1\<close> need not terminate; such
    loops are partial functions into \<open>option\<close>, where \<open>None\<close> means that the loop does not
    return.
  \<^item> The source's variable \<^verbatim>\<open>hd\<close> is written \<open>hd'\<close>, since \<open>hd\<close> is the head of a list in HOL.
  \<^item> Log lines and the Prometheus counters (\<^verbatim>\<open>ValidatorAttestFailVec\<close>) do not influence any
    returned value and are left out.
\<close>

type_synonym uint64 = "64 word"
type_synonym bytes = "8 word list"

datatype panic = NilPointerDereference | IntegerDivideByZero

datatype error = BackendUnavailable | SigningRootUnavailable

subsection \<open>The persistent encoded history (package kv)\<close>

text \<open>\<^verbatim>\<open>kv.HistoryData\<close>: the vote recorded for one target epoch. The source reads the fields
  \<^verbatim>\<open>Source\<close> (a \<^verbatim>\<open>uint64\<close>) and \<^verbatim>\<open>SigningRoot\<close> (a \<^verbatim>\<open>[]byte\<close>).\<close>

record HistoryData =
  Source :: uint64
  SigningRoot :: bytes

text \<open>The calls that the core makes on the persistent store, used to name the calls that
  currently fail.\<close>

datatype access =
    ReadLatestEpochWritten
  | ReadTargetData uint64
  | WriteTargetData uint64
  | WriteLatestEpochWritten

text \<open>Modelled from the spec: the type \<^verbatim>\<open>kv.EncHistoryData\<close> and its accessors
  \<^verbatim>\<open>GetLatestEpochWritten\<close>, \<^verbatim>\<open>GetTargetData\<close>, \<^verbatim>\<open>SetTargetData\<close> and
  \<^verbatim>\<open>SetLatestEpochWritten\<close> are not part of the source file. Following sections 3 and 6 of
  the specification, a history store holds the high-water mark \<open>latestEpochWritten\<close> and an
  array of \<open>wsPeriod\<close> entries, each a recorded vote or absent, where the index for epoch
  \<open>E\<close> is \<open>E mod wsPeriod\<close>; the accessors reduce the index they are given modulo
  \<open>wsPeriod\<close>, so that the epoch passed at line 88 and the already reduced indices passed at
  lines 137, 149 and 169 address the same slot. Every call is fallible: \<open>faults\<close> is the set
  of calls that the backing store fails at present, and a failing call returns an error and
  leaves the store as it is.\<close>

record EncHistoryData =
  latestEpochWritten :: uint64
  entries :: "uint64 \<Rightarrow> HistoryData option"
  faults :: "access set"

text \<open>Modelled from the spec: \<^verbatim>\<open>getLatestEpochWritten\<close> of section 6 (the method
  \<^verbatim>\<open>EncHistoryData.GetLatestEpochWritten\<close> is not in the source file): the high-water mark, or an
  error when the read fails.\<close>

definition GetLatestEpochWritten :: "EncHistoryData \<Rightarrow> error + uint64" where
  "GetLatestEpochWritten history =
     (if ReadLatestEpochWritten \<in> faults history then Inl BackendUnavailable
      else Inr (latestEpochWritten history))"

text \<open>Modelled from the spec: \<^verbatim>\<open>getTargetData\<close> of section 6 (the method
  \<^verbatim>\<open>EncHistoryData.GetTargetData\<close> is not in the source file): the entry of the slot, a vote or
  absent (\<^verbatim>\<open>nil\<close>), or an error when the read fails.\<close>

definition GetTargetData :: "uint64 \<Rightarrow> EncHistoryData \<Rightarrow> uint64 \<Rightarrow> error + HistoryData option" where
  "GetTargetData wsPeriod history target =
     (if ReadTargetData (target mod wsPeriod) \<in> faults history then Inl BackendUnavailable
      else Inr (entries history (target mod wsPeriod)))"

text \<open>Modelled from the spec: \<^verbatim>\<open>setTargetData\<close> of section 6 (the method
  \<^verbatim>\<open>EncHistoryData.SetTargetData\<close> is not in the source file): the store with the slot replaced
  by the given entry, where \<^verbatim>\<open>nil\<close> makes the slot absent, or an error when the write fails.\<close>

definition SetTargetData ::
  "uint64 \<Rightarrow> EncHistoryData \<Rightarrow> uint64 \<Rightarrow> HistoryData option \<Rightarrow> error + EncHistoryData" where
  "SetTargetData wsPeriod history target historyData =
     (if WriteTargetData (target mod wsPeriod) \<in> faults history then Inl BackendUnavailable
      else Inr (history\<lparr>entries := (entries history)(target mod wsPeriod := historyData)\<rparr>))"

text \<open>Modelled from the spec: \<^verbatim>\<open>setLatestEpochWritten\<close> of section 6 (the method
  \<^verbatim>\<open>EncHistoryData.SetLatestEpochWritten\<close> is not in the source file): the store with the
  high-water mark replaced, or an error when the write fails.\<close>

definition SetLatestEpochWritten :: "EncHistoryData \<Rightarrow> uint64 \<Rightarrow> error + EncHistoryData" where
  "SetLatestEpochWritten history latestEpochWritten' =
     (if WriteLatestEpochWritten \<in> faults history then Inl BackendUnavailable
      else Inr (history\<lparr>latestEpochWritten := latestEpochWritten'\<rparr>))"

subsection \<open>Attestations (package ethpb)\<close>

text \<open>The protobuf messages, with the fields the source reads
  (\<^verbatim>\<open>indexedAtt.Data.Source.Epoch\<close>, \<^verbatim>\<open>indexedAtt.Data.Target.Epoch\<close>) and the remaining
  fields of the messages. The pointers inside an attestation handed to the validator are
  not \<^verbatim>\<open>nil\<close>.\<close>

record Checkpoint =
  Epoch :: uint64
  Root :: bytes

record AttestationData =
  Slot :: uint64
  CommitteeIndex :: uint64
  BeaconBlockRoot :: bytes
  att_Source :: Checkpoint
  att_Target :: Checkpoint

record IndexedAttestation =
  AttestingIndices :: "uint64 list"
  Data :: AttestationData
  Signature :: bytes

subsection \<open>safeTargetToSource (lines 157--175)\<close>

text \<open>The bounded lookup. \<^verbatim>\<open>wsPeriod\<close> is
  \<^verbatim>\<open>params.BeaconConfig().WeakSubjectivityPeriod\<close>, a parameter here. Go's \<^verbatim>\<open>%\<close> panics on a
  zero divisor.\<close>

definition safeTargetToSource ::
  "uint64 \<Rightarrow> EncHistoryData \<Rightarrow> uint64 \<Rightarrow> panic + HistoryData option" where
  "safeTargetToSource wsPeriod history targetEpoch =
     (case GetLatestEpochWritten history of
        Inl err \<Rightarrow> Inr None
      | Inr lew \<Rightarrow>
          if targetEpoch > lew \<or> sint targetEpoch < sint (lew - wsPeriod) then Inr None
          else if wsPeriod = 0 then Inl IntegerDivideByZero
          else (case GetTargetData wsPeriod history (targetEpoch mod wsPeriod) of
                  Inl err \<Rightarrow> Inr None
                | Inr hd' \<Rightarrow> Inr hd'))"

subsection \<open>isNewAttSlashable (lines 70--118)\<close>

text \<open>The loop of lines 98--108, started at \<open>i = sourceEpoch\<close>. \<open>Some (Inr True)\<close> is the
  \<^verbatim>\<open>return true\<close> of line 106, \<open>Some (Inr False)\<close> is leaving the loop at \<^verbatim>\<open>i > targetEpoch\<close>.
  \<^verbatim>\<open>i++\<close> wraps.\<close>

partial_function (option) surroundingLoop ::
  "uint64 \<Rightarrow> EncHistoryData \<Rightarrow> uint64 \<Rightarrow> uint64 \<Rightarrow> uint64 \<Rightarrow> (panic + bool) option" where
  "surroundingLoop wsPeriod history sourceEpoch targetEpoch i =
     (if i \<le> targetEpoch then
        (case safeTargetToSource wsPeriod history i of
           Inl p \<Rightarrow> Some (Inl p)
         | Inr None \<Rightarrow> surroundingLoop wsPeriod history sourceEpoch targetEpoch (i + 1)
         | Inr (Some historyBoundry) \<Rightarrow>
             if Source historyBoundry > sourceEpoch then Some (Inr True)
             else surroundingLoop wsPeriod history sourceEpoch targetEpoch (i + 1))
      else Some (Inr False))"

text \<open>The loop of lines 111--115, started at \<open>i = targetEpoch\<close>. Line 112 reads the field
  \<^verbatim>\<open>Source\<close> of the pointer returned by \<^verbatim>\<open>safeTargetToSource\<close> without a \<^verbatim>\<open>nil\<close> test.\<close>

partial_function (option) surroundedLoop ::
  "uint64 \<Rightarrow> EncHistoryData \<Rightarrow> uint64 \<Rightarrow> uint64 \<Rightarrow> uint64 \<Rightarrow> (panic + bool) option" where
  "surroundedLoop wsPeriod history sourceEpoch lew i =
     (if i \<le> lew then
        (case safeTargetToSource wsPeriod history i of
           Inl p \<Rightarrow> Some (Inl p)
         | Inr None \<Rightarrow> Some (Inl NilPointerDereference)
         | Inr (Some hd') \<Rightarrow>
             if Source hd' < sourceEpoch then Some (Inr True)
             else surroundedLoop wsPeriod history sourceEpoch lew (i + 1))
      else Some (Inr False))"

declare surroundingLoop.simps [code] surroundedLoop.simps [code]

text \<open>\<^verbatim>\<open>v.getDomainAndSigningRoot\<close> is not part of the source file; it is a parameter that
  returns Go's triple (domain, signing root, error). Line 75 binds the error to \<^verbatim>\<open>err\<close>,
  line 78 assigns \<^verbatim>\<open>err\<close> again before anything has read it.\<close>

definition isNewAttSlashable ::
  "uint64 \<Rightarrow> (AttestationData \<Rightarrow> bytes \<times> bytes \<times> error option) \<Rightarrow> EncHistoryData option \<Rightarrow>
     uint64 \<Rightarrow> uint64 \<Rightarrow> IndexedAttestation \<Rightarrow> (panic + bool) option" where
  "isNewAttSlashable wsPeriod getDomainAndSigningRoot history sourceEpoch targetEpoch indexedAtt =
     (case history of
        None \<Rightarrow> Some (Inr False)
      | Some history \<Rightarrow>
         (case getDomainAndSigningRoot (Data indexedAtt) of (_, sr, err) \<Rightarrow>
           (case GetLatestEpochWritten history of
              Inl err \<Rightarrow> Some (Inr False)
            | Inr lew \<Rightarrow>
                if sint targetEpoch \<le> sint (lew - wsPeriod) then Some (Inr False)
                else
                  (case GetTargetData wsPeriod history targetEpoch of
                     Inl err \<Rightarrow> Some (Inr False)
                   | Inr hd' \<Rightarrow>
                       if hd' \<noteq> None \<and> sr \<noteq> SigningRoot (the hd') then Some (Inr True)
                       else
                         (case surroundingLoop wsPeriod history sourceEpoch targetEpoch sourceEpoch of
                            None \<Rightarrow> None
                          | Some (Inl p) \<Rightarrow> Some (Inl p)
                          | Some (Inr True) \<Rightarrow> Some (Inr True)
                          | Some (Inr False) \<Rightarrow>
                              surroundedLoop wsPeriod history sourceEpoch lew targetEpoch)))))"

subsection \<open>markAttestationForTargetEpoch (lines 122--155)\<close>

text \<open>The loop of lines 136--142 (with \<open>maxToWrite\<close> of line 135), started at \<open>i = lew + 1\<close>. \<open>Inr (Inl err)\<close> is the
  \<^verbatim>\<open>return nil\<close> of line 140, \<open>Inr (Inr history)\<close> is the store on leaving the loop.\<close>

function markLoop ::
  "uint64 \<Rightarrow> EncHistoryData \<Rightarrow> uint64 \<Rightarrow> uint64 \<Rightarrow> uint64 \<Rightarrow> panic + (error + EncHistoryData)" where
  "markLoop wsPeriod history targetEpoch maxToWrite i =
     (if i < targetEpoch \<and> i \<le> maxToWrite then
        if wsPeriod = 0 then Inl IntegerDivideByZero
        else (case SetTargetData wsPeriod history (i mod wsPeriod) None of
                Inl err \<Rightarrow> Inr (Inl err)
              | Inr history' \<Rightarrow> markLoop wsPeriod history' targetEpoch maxToWrite (i + 1))
      else Inr (Inr history))"
  by pat_completeness auto
termination
proof (relation "measure (\<lambda>(wsPeriod, history, targetEpoch, maxToWrite, i). unat targetEpoch - unat i)")
  show "wf (measure (\<lambda>(wsPeriod, history, targetEpoch, maxToWrite, i). unat targetEpoch - unat i))"
    by simp
next
  fix wsPeriod :: uint64 and history history' :: EncHistoryData
    and targetEpoch maxToWrite i :: uint64
  assume "i < targetEpoch \<and> i \<le> maxToWrite"
  then have lt: "i < targetEpoch" by simp
  then have "unat (i + 1) = unat i + 1"
    by (metis (no_types, lifting) add.commute add_0 inc_i inc_le
        unat_plus_simple unsigned_0 unsigned_1 word_gt_0)
  moreover have "unat i < unat targetEpoch"
    using lt by (simp add: word_less_nat_alt)
  ultimately show "((wsPeriod, history', targetEpoch, maxToWrite, i + 1),
                    (wsPeriod, history, targetEpoch, maxToWrite, i))
      \<in> measure (\<lambda>(wsPeriod, history, targetEpoch, maxToWrite, i). unat targetEpoch - unat i)"
    by simp
qed

declare markLoop.simps [simp del]

text \<open>The result is the returned pointer: \<open>None\<close> is \<^verbatim>\<open>nil\<close>. The entry written at line 149 is
  \<^verbatim>\<open>&kv.HistoryData{Source: sourceEpoch}\<close>, whose \<^verbatim>\<open>SigningRoot\<close> is the \<^verbatim>\<open>nil\<close> slice.\<close>

definition markAttestationForTargetEpoch ::
  "uint64 \<Rightarrow> EncHistoryData option \<Rightarrow> uint64 \<Rightarrow> uint64 \<Rightarrow> panic + EncHistoryData option" where
  "markAttestationForTargetEpoch wsPeriod history sourceEpoch targetEpoch =
     (case history of
        None \<Rightarrow> Inr None
      | Some history \<Rightarrow>
         (case GetLatestEpochWritten history of
            Inl err \<Rightarrow> Inr None
          | Inr lew \<Rightarrow>
             (case (if targetEpoch > lew then
                      (case markLoop wsPeriod history targetEpoch (lew + wsPeriod) (lew + 1) of
                         Inl p \<Rightarrow> Inl p
                       | Inr (Inl err) \<Rightarrow> Inr (Inl err)
                       | Inr (Inr history) \<Rightarrow> Inr (SetLatestEpochWritten history targetEpoch))
                    else Inr (Inr history)) of
                Inl p \<Rightarrow> Inl p
              | Inr (Inl err) \<Rightarrow> Inr None
              | Inr (Inr history) \<Rightarrow>
                  if wsPeriod = 0 then Inl IntegerDivideByZero
                  else (case SetTargetData wsPeriod history (targetEpoch mod wsPeriod)
                               (Some \<lparr>Source = sourceEpoch, SigningRoot = []\<rparr>) of
                          Inl err \<Rightarrow> Inr None
                        | Inr history \<Rightarrow> Inr (Some history)))))"

subsection \<open>preAttSignValidations and postAttSignUpdate (lines 19--66)\<close>

definition failedPreAttSignLocalErr :: string where
  "failedPreAttSignLocalErr =
     ''attempted to make slashable attestation, rejected by local slashing protection''"

definition failedPreAttSignExternalErr :: string where
  "failedPreAttSignExternalErr =
     ''attempted to make slashable attestation, rejected by external slasher service''"

definition failedPostAttSignExternalErr :: string where
  "failedPostAttSignExternalErr =
     ''external slasher service detected a submitted slashable attestation''"

text \<open>The external slasher service \<^verbatim>\<open>v.protector\<close>, an interface value that may be \<^verbatim>\<open>nil\<close>.\<close>

record Protector =
  CheckAttestationSafety :: "IndexedAttestation \<Rightarrow> bool"
  CommitAttestation :: "IndexedAttestation \<Rightarrow> bool"

text \<open>The fields of \<^verbatim>\<open>validator\<close> that the two functions use. The map
  \<^verbatim>\<open>attesterHistoryByPubKey\<close> holds pointers, so a key can be present with the value
  \<^verbatim>\<open>nil\<close>. The read-write lock is taken and released inside each function and is not
  modelled.\<close>

record validator =
  attesterHistoryByPubKey :: "bytes \<rightharpoonup> EncHistoryData option"
  emitAccountMetrics :: bool
  protector :: "Protector option"

text \<open>The returned \<^verbatim>\<open>error\<close> is its message, \<open>None\<close> is \<^verbatim>\<open>nil\<close>. \<open>SlasherProtection\<close> is
  \<^verbatim>\<open>featureconfig.Get().SlasherProtection\<close>.\<close>

definition preAttSignValidations ::
  "bool \<Rightarrow> uint64 \<Rightarrow> (AttestationData \<Rightarrow> bytes \<times> bytes \<times> error option) \<Rightarrow> validator \<Rightarrow>
     IndexedAttestation \<Rightarrow> bytes \<Rightarrow> (panic + string option) option" where
  "preAttSignValidations SlasherProtection wsPeriod getDomainAndSigningRoot v indexedAtt pubKey =
     (case (case attesterHistoryByPubKey v pubKey of
              None \<Rightarrow> Some (Inr False)
            | Some attesterHistory \<Rightarrow>
                isNewAttSlashable wsPeriod getDomainAndSigningRoot attesterHistory
                  (Epoch (att_Source (Data indexedAtt))) (Epoch (att_Target (Data indexedAtt)))
                  indexedAtt) of
        None \<Rightarrow> None
      | Some (Inl p) \<Rightarrow> Some (Inl p)
      | Some (Inr True) \<Rightarrow> Some (Inr (Some failedPreAttSignLocalErr))
      | Some (Inr False) \<Rightarrow>
          if SlasherProtection \<and> protector v \<noteq> None then
            if \<not> CheckAttestationSafety (the (protector v)) indexedAtt
            then Some (Inr (Some failedPreAttSignExternalErr))
            else Some (Inr None)
          else Some (Inr None))"

definition postAttSignUpdate ::
  "bool \<Rightarrow> uint64 \<Rightarrow> validator \<Rightarrow> IndexedAttestation \<Rightarrow> bytes \<Rightarrow>
     panic + (validator \<times> string option)" where
  "postAttSignUpdate SlasherProtection wsPeriod v indexedAtt pubKey =
     (case (case attesterHistoryByPubKey v pubKey of
              None \<Rightarrow> Inr v
            | Some attesterHistory \<Rightarrow>
                (case markAttestationForTargetEpoch wsPeriod attesterHistory
                        (Epoch (att_Source (Data indexedAtt)))
                        (Epoch (att_Target (Data indexedAtt))) of
                   Inl p \<Rightarrow> Inl p
                 | Inr attesterHistory' \<Rightarrow>
                     Inr (v\<lparr>attesterHistoryByPubKey :=
                              (attesterHistoryByPubKey v)(pubKey \<mapsto> attesterHistory')\<rparr>))) of
        Inl p \<Rightarrow> Inl p
      | Inr v' \<Rightarrow>
          if SlasherProtection \<and> protector v' \<noteq> None then
            if \<not> CommitAttestation (the (protector v')) indexedAtt
            then Inr (v', Some failedPostAttSignExternalErr)
            else Inr (v', None)
          else Inr (v', None))"

subsection \<open>Concrete inputs\<close>

text \<open>Stores, attestations and signing-root computations used to run the functions on
  explicit inputs.\<close>

definition rootA :: bytes where
  "rootA = replicate 32 1"

definition rootB :: bytes where
  "rootB = replicate 32 2"

definition zeroRoot :: bytes where
  "zeroRoot = replicate 32 0"

definition signsTo :: "bytes \<Rightarrow> AttestationData \<Rightarrow> bytes \<times> bytes \<times> error option" where
  "signsTo r d = ([], r, None)"

definition signingFails :: "AttestationData \<Rightarrow> bytes \<times> bytes \<times> error option" where
  "signingFails d = ([], zeroRoot, Some SigningRootUnavailable)"

definition attestation :: "uint64 \<Rightarrow> uint64 \<Rightarrow> IndexedAttestation" where
  "attestation s t =
     \<lparr>AttestingIndices = [],
      Data = \<lparr>Slot = 0, CommitteeIndex = 0, BeaconBlockRoot = [],
              att_Source = \<lparr>Epoch = s, Root = []\<rparr>, att_Target = \<lparr>Epoch = t, Root = []\<rparr>\<rparr>,
      Signature = []\<rparr>"

definition storeOf :: "uint64 \<Rightarrow> (uint64 \<times> HistoryData) list \<Rightarrow> access set \<Rightarrow> EncHistoryData" where
  "storeOf lew votes fs = \<lparr>latestEpochWritten = lew, entries = map_of votes, faults = fs\<rparr>"

definition localOnly :: "EncHistoryData \<Rightarrow> validator" where
  "localOnly history =
     \<lparr>attesterHistoryByPubKey = [replicate 48 0 \<mapsto> Some history],
      emitAccountMetrics = False, protector = None\<rparr>"

definition withSlasher :: "bool \<Rightarrow> EncHistoryData \<Rightarrow> validator" where
  "withSlasher verdict history =
     \<lparr>attesterHistoryByPubKey = [replicate 48 0 \<mapsto> Some history],
      emitAccountMetrics = False,
      protector = Some \<lparr>CheckAttestationSafety = (\<lambda>indexedAtt. verdict),
                        CommitAttestation = (\<lambda>indexedAtt. verdict)\<rparr>\<rparr>"

text \<open>Recording a vote and then looking at the store, or running the check again with the
  same candidate: \<^verbatim>\<open>postAttSignUpdate\<close> puts the pointer returned by
  \<^verbatim>\<open>markAttestationForTargetEpoch\<close> into the map, where the next
  \<^verbatim>\<open>preAttSignValidations\<close> finds it.\<close>

definition checkAfterMark ::
  "uint64 \<Rightarrow> (AttestationData \<Rightarrow> bytes \<times> bytes \<times> error option) \<Rightarrow> EncHistoryData \<Rightarrow>
     uint64 \<Rightarrow> uint64 \<Rightarrow> IndexedAttestation \<Rightarrow> (panic + bool) option" where
  "checkAfterMark wsPeriod getDomainAndSigningRoot history sourceEpoch targetEpoch indexedAtt =
     (case markAttestationForTargetEpoch wsPeriod (Some history) sourceEpoch targetEpoch of
        Inl p \<Rightarrow> Some (Inl p)
      | Inr history' \<Rightarrow>
          isNewAttSlashable wsPeriod getDomainAndSigningRoot history' sourceEpoch targetEpoch
            indexedAtt)"

definition entryAfterMark ::
  "uint64 \<Rightarrow> EncHistoryData \<Rightarrow> uint64 \<Rightarrow> uint64 \<Rightarrow> uint64 \<Rightarrow> HistoryData option option" where
  "entryAfterMark wsPeriod history sourceEpoch targetEpoch slot =
     (case markAttestationForTargetEpoch wsPeriod (Some history) sourceEpoch targetEpoch of
        Inr (Some history') \<Rightarrow> Some (entries history' slot)
      | _ \<Rightarrow> None)"

definition latestAfterMark :: "uint64 \<Rightarrow> EncHistoryData \<Rightarrow> uint64 \<Rightarrow> uint64 \<Rightarrow> uint64 option" where
  "latestAfterMark wsPeriod history sourceEpoch targetEpoch =
     (case markAttestationForTargetEpoch wsPeriod (Some history) sourceEpoch targetEpoch of
        Inr (Some history') \<Rightarrow> Some (latestEpochWritten history')
      | _ \<Rightarrow> None)"

text \<open>The eviction range in the words of the specification (section 4.3), for comparison
  with the loop of lines 135--142: the slots \<open>i mod wsPeriod\<close> of the epochs \<open>i\<close> strictly
  between \<open>latestEpochWritten\<close> and \<open>min(targetEpoch, latestEpochWritten + wsPeriod)\<close>.\<close>

definition evictedSlotsAsSpecified :: "uint64 \<Rightarrow> uint64 \<Rightarrow> uint64 \<Rightarrow> uint64 list" where
  "evictedSlotsAsSpecified wsPeriod lew targetEpoch =
     map (\<lambda>i. of_nat i mod wsPeriod)
       [Suc (unat lew) ..< min (unat targetEpoch) (unat lew + unat wsPeriod)]"

section \<open>Properties\<close>

subsection \<open>Read failures of the store\<close>

text \<open>C1, as amended. If reading \<open>latestEpochWritten\<close> or reading the entry of the
  candidate's target epoch fails, \<^verbatim>\<open>isNewAttSlashable\<close> returns \<^verbatim>\<open>false\<close> (not slashable), and
  \<^verbatim>\<open>preAttSignValidations\<close> for a key with that store rejects the candidate exactly when the
  external slasher service is enabled, configured and refuses it (with the error of the
  external service); in every other case, also with the service enabled and accepting, it
  returns \<^verbatim>\<open>nil\<close> and the candidate may be signed.\<close>

theorem read_failure_reports_not_slashable:
  assumes "GetLatestEpochWritten history = Inl e \<or>
           GetTargetData wsPeriod history (Epoch (att_Target (Data indexedAtt))) = Inl e"
  shows "isNewAttSlashable wsPeriod getDomainAndSigningRoot (Some history)
           (Epoch (att_Source (Data indexedAtt))) (Epoch (att_Target (Data indexedAtt)))
           indexedAtt = Some (Inr False)
       \<and> (attesterHistoryByPubKey v pubKey = Some (Some history) \<longrightarrow>
          preAttSignValidations SlasherProtection wsPeriod getDomainAndSigningRoot v indexedAtt
            pubKey
          = Some (Inr (if SlasherProtection \<and> protector v \<noteq> None \<and>
                          \<not> CheckAttestationSafety (the (protector v)) indexedAtt
                       then Some failedPreAttSignExternalErr else None)))"
proof -
  have local: "isNewAttSlashable wsPeriod getDomainAndSigningRoot (Some history)
           (Epoch (att_Source (Data indexedAtt))) (Epoch (att_Target (Data indexedAtt)))
           indexedAtt = Some (Inr False)"
    using assms
    by (auto simp: isNewAttSlashable_def split: prod.splits sum.splits)
  then show ?thesis
    by (auto simp: preAttSignValidations_def)
qed

text \<open>The store holds a vote for target epoch 5 with signing root \<open>rootA\<close> and the candidate
  has the signing root \<open>rootB\<close>. With the read of \<open>latestEpochWritten\<close> failing the candidate
  passes without a service and with an accepting service, and is refused only by a refusing
  service; with the read of the entry failing the check answers "not slashable" too.\<close>

theorem read_failure_reports_not_slashable_witness:
  "GetLatestEpochWritten
     (storeOf 5 [(5, \<lparr>Source = 4, SigningRoot = rootA\<rparr>)] {ReadLatestEpochWritten})
     = Inl BackendUnavailable
   \<and> isNewAttSlashable 100 (signsTo rootB)
       (Some (storeOf 5 [(5, \<lparr>Source = 4, SigningRoot = rootA\<rparr>)] {ReadLatestEpochWritten}))
       4 5 (attestation 4 5) = Some (Inr False)
   \<and> preAttSignValidations False 100 (signsTo rootB)
       (localOnly (storeOf 5 [(5, \<lparr>Source = 4, SigningRoot = rootA\<rparr>)] {ReadLatestEpochWritten}))
       (attestation 4 5) (replicate 48 0) = Some (Inr None)
   \<and> preAttSignValidations True 100 (signsTo rootB)
       (withSlasher True
          (storeOf 5 [(5, \<lparr>Source = 4, SigningRoot = rootA\<rparr>)] {ReadLatestEpochWritten}))
       (attestation 4 5) (replicate 48 0) = Some (Inr None)
   \<and> preAttSignValidations True 100 (signsTo rootB)
       (withSlasher False
          (storeOf 5 [(5, \<lparr>Source = 4, SigningRoot = rootA\<rparr>)] {ReadLatestEpochWritten}))
       (attestation 4 5) (replicate 48 0) = Some (Inr (Some failedPreAttSignExternalErr))
   \<and> GetTargetData 100
       (storeOf 5 [(5, \<lparr>Source = 4, SigningRoot = rootA\<rparr>)] {ReadTargetData 5}) 5
       = Inl BackendUnavailable
   \<and> isNewAttSlashable 100 (signsTo rootB)
       (Some (storeOf 5 [(5, \<lparr>Source = 4, SigningRoot = rootA\<rparr>)] {ReadTargetData 5}))
       4 5 (attestation 4 5) = Some (Inr False)"
proof -
  let ?h = "storeOf 5 [(5, \<lparr>Source = 4, SigningRoot = rootA\<rparr>)] {ReadLatestEpochWritten}"
  have r1: "GetLatestEpochWritten ?h = Inl BackendUnavailable"
    by (simp add: GetLatestEpochWritten_def storeOf_def)
  have r2: "GetTargetData 100
      (storeOf 5 [(5, \<lparr>Source = 4, SigningRoot = rootA\<rparr>)] {ReadTargetData 5})
      (Epoch (att_Target (Data (attestation 4 5)))) = Inl BackendUnavailable"
    by (simp add: GetTargetData_def storeOf_def attestation_def)
  have e: "Epoch (att_Source (Data (attestation 4 5))) = 4"
          "Epoch (att_Target (Data (attestation 4 5))) = 5"
    by (simp_all add: attestation_def)
  have k: "attesterHistoryByPubKey (localOnly ?h) (replicate 48 0) = Some (Some ?h)"
    "protector (localOnly ?h) = None"
    "attesterHistoryByPubKey (withSlasher True ?h) (replicate 48 0) = Some (Some ?h)"
    "attesterHistoryByPubKey (withSlasher False ?h) (replicate 48 0) = Some (Some ?h)"
    "protector (withSlasher True ?h) \<noteq> None"
    "protector (withSlasher False ?h) \<noteq> None"
    "CheckAttestationSafety (the (protector (withSlasher True ?h))) (attestation 4 5)"
    "\<not> CheckAttestationSafety (the (protector (withSlasher False ?h))) (attestation 4 5)"
    by (simp_all add: localOnly_def withSlasher_def)
  note t = read_failure_reports_not_slashable [where e = BackendUnavailable
      and wsPeriod = 100 and indexedAtt = "attestation 4 5"
      and getDomainAndSigningRoot = "signsTo rootB" and pubKey = "replicate 48 0"]
  from t [where v = "localOnly ?h" and SlasherProtection = False, OF disjI1, OF r1]
    t [where v = "withSlasher True ?h" and SlasherProtection = True, OF disjI1, OF r1]
    t [where v = "withSlasher False ?h" and SlasherProtection = True, OF disjI1, OF r1]
    t [OF disjI2, OF r2]
  show ?thesis
    using r1 r2 k by (simp add: e)
qed

text \<open>C1, as stated, fails. The store holds a vote for target epoch 5 with signing root
  \<open>rootA\<close>; the candidate has the same target and the signing root \<open>rootB\<close>, a double vote.
  Reading \<open>latestEpochWritten\<close> fails, the check answers "not slashable" and, with no
  external service, \<^verbatim>\<open>preAttSignValidations\<close> returns \<^verbatim>\<open>nil\<close>.\<close>

theorem read_failure_rejects_counterexample:
  "GetLatestEpochWritten
     (storeOf 5 [(5, \<lparr>Source = 4, SigningRoot = rootA\<rparr>)] {ReadLatestEpochWritten})
     = Inl BackendUnavailable
   \<and> isNewAttSlashable 100 (signsTo rootB)
       (Some (storeOf 5 [(5, \<lparr>Source = 4, SigningRoot = rootA\<rparr>)] {ReadLatestEpochWritten}))
       4 5 (attestation 4 5) = Some (Inr False)
   \<and> preAttSignValidations False 100 (signsTo rootB)
       (localOnly (storeOf 5 [(5, \<lparr>Source = 4, SigningRoot = rootA\<rparr>)] {ReadLatestEpochWritten}))
       (attestation 4 5) (replicate 48 0) = Some (Inr None)"
  by (simp add: GetLatestEpochWritten_def storeOf_def isNewAttSlashable_def signsTo_def
      preAttSignValidations_def localOnly_def attestation_def)

subsection \<open>The pruned window\<close>

text \<open>C4. For every history store and every weak-subjectivity period, a candidate whose
  target epoch is at most \<open>latestEpochWritten - wsPeriod\<close>, compared as signed 64-bit
  integers the way line 83 does, is reported not slashable, whatever the store holds (and
  whether or not the store can be read).\<close>

theorem pruned_target_not_slashable:
  assumes "sint targetEpoch \<le> sint (latestEpochWritten history - wsPeriod)"
  shows "isNewAttSlashable wsPeriod getDomainAndSigningRoot (Some history) sourceEpoch
           targetEpoch indexedAtt = Some (Inr False)"
  using assms
  by (auto simp: isNewAttSlashable_def GetLatestEpochWritten_def split: prod.splits sum.splits)

text \<open>With \<open>wsPeriod = 100\<close> and \<open>latestEpochWritten = 1000\<close> the candidate with target epoch
  899 is not slashable, although slot 99 holds a vote with another signing root and a larger
  source epoch.\<close>

theorem pruned_target_not_slashable_witness:
  "sint (899 :: uint64) \<le> sint (1000 - 100 :: uint64)
   \<and> isNewAttSlashable 100 (signsTo rootB)
       (Some (storeOf 1000 [(99, \<lparr>Source = 998, SigningRoot = rootA\<rparr>)] {}))
       898 899 (attestation 898 899) = Some (Inr False)"
proof -
  have h: "sint (899 :: uint64)
      \<le> sint (latestEpochWritten (storeOf 1000 [(99, \<lparr>Source = 998, SigningRoot = rootA\<rparr>)] {})
               - 100)"
    by (simp add: storeOf_def)
  show ?thesis
    using pruned_target_not_slashable [OF h, of "signsTo rootB" 898 "attestation 898 899"]
    by simp
qed

text \<open>For epochs and periods below \<open>2^63\<close> the signed comparison of line 83 is the comparison
  of the unsigned values as integers; in particular it is false when
  \<open>latestEpochWritten < wsPeriod\<close>, so the subtraction does not underflow into the branch.\<close>

lemma sint_small: "uint (x::64 word) < 2 ^ 63 \<Longrightarrow> sint x = uint x"
proof -
  assume a: "uint x < 2 ^ 63"
  moreover have "- (2 ^ 63) \<le> (0 :: int)"
    by simp
  then have "- (2 ^ 63) \<le> uint x"
    using uint_ge_0 [of x] by (rule order_trans)
  ultimately have "signed_take_bit 63 (uint x) = uint x"
    by (intro signed_take_bit_int_eq_self)
  then show ?thesis
    by (simp add: sint_uint)
qed

lemma pruned_comparison_on_integers:
  fixes lew wsPeriod targetEpoch :: "64 word"
  assumes "uint lew < 2 ^ 63" and "uint wsPeriod < 2 ^ 63" and "uint targetEpoch < 2 ^ 63"
  shows "sint targetEpoch \<le> sint (lew - wsPeriod)
           \<longleftrightarrow> uint targetEpoch \<le> uint lew - uint wsPeriod"
proof -
  have l: "sint lew = uint lew" and w: "sint wsPeriod = uint wsPeriod"
    and t: "sint targetEpoch = uint targetEpoch"
    using assms by (simp_all add: sint_small)
  have "- (2 ^ 63) \<le> uint lew - uint wsPeriod"
    using assms(2) uint_ge_0 [of lew] by linarith
  moreover have "uint lew - uint wsPeriod < 2 ^ 63"
    using assms(1) uint_ge_0 [of wsPeriod] by linarith
  ultimately have "signed_take_bit 63 (uint lew - uint wsPeriod) = uint lew - uint wsPeriod"
    by (rule signed_take_bit_int_eq_self)
  then have "sint (lew - wsPeriod) = uint lew - uint wsPeriod"
    by (simp add: sint_word_diff l w)
  then show ?thesis
    by (simp add: t)
qed

lemma pruned_target_not_slashable_on_integers:
  assumes "uint (latestEpochWritten history) < 2 ^ 63" and "uint wsPeriod < 2 ^ 63"
    and "uint targetEpoch < 2 ^ 63"
    and "uint targetEpoch \<le> uint (latestEpochWritten history) - uint wsPeriod"
  shows "isNewAttSlashable wsPeriod getDomainAndSigningRoot (Some history) sourceEpoch
           targetEpoch indexedAtt = Some (Inr False)"
proof -
  have "sint targetEpoch \<le> sint (latestEpochWritten history - wsPeriod)"
    using assms by (simp add: pruned_comparison_on_integers)
  then show ?thesis
    by (auto simp: isNewAttSlashable_def GetLatestEpochWritten_def
        split: prod.splits sum.splits)
qed

subsection \<open>The error of the signing-root computation\<close>

text \<open>The result of \<^verbatim>\<open>isNewAttSlashable\<close> does not depend on the error value that the
  signing-root computation returns: replacing it by any other value (for instance \<^verbatim>\<open>nil\<close>)
  leaves the result unchanged.\<close>

lemma signing_root_error_value_irrelevant:
  "isNewAttSlashable wsPeriod
     (\<lambda>d. (fst (getDomainAndSigningRoot d), fst (snd (getDomainAndSigningRoot d)), err))
     history sourceEpoch targetEpoch indexedAtt
   = isNewAttSlashable wsPeriod getDomainAndSigningRoot history sourceEpoch targetEpoch
       indexedAtt"
  by (cases history; cases "getDomainAndSigningRoot (Data indexedAtt)")
     (simp_all add: isNewAttSlashable_def)

text \<open>C10. When the signing-root computation fails and returns the root \<open>sr\<close> together with
  its error, \<^verbatim>\<open>isNewAttSlashable\<close> answers what it answers for a computation that succeeds
  with the root \<open>sr\<close>: the error is not looked at. In particular, where the store can be
  read, the target epoch is not pruned and a vote is recorded for it, the comparison of line
  93 is made with \<open>sr\<close>: the candidate is flagged as a double vote when \<open>sr\<close> differs from the
  recorded root, and otherwise the check goes on to the two loops and returns their answer;
  the failure itself neither fails the check nor rejects the candidate.\<close>

theorem failed_signing_root_is_compared:
  assumes "getDomainAndSigningRoot (Data indexedAtt) = (domain, sr, Some e)"
  shows "isNewAttSlashable wsPeriod getDomainAndSigningRoot (Some history) sourceEpoch
           targetEpoch indexedAtt
         = isNewAttSlashable wsPeriod (\<lambda>d. (domain, sr, None)) (Some history) sourceEpoch
             targetEpoch indexedAtt
       \<and> (GetLatestEpochWritten history = Inr lew \<and>
          \<not> sint targetEpoch \<le> sint (lew - wsPeriod) \<and>
          GetTargetData wsPeriod history targetEpoch = Inr (Some vote) \<longrightarrow>
          isNewAttSlashable wsPeriod getDomainAndSigningRoot (Some history) sourceEpoch
            targetEpoch indexedAtt
          = (if sr \<noteq> SigningRoot vote then Some (Inr True)
             else (case surroundingLoop wsPeriod history sourceEpoch targetEpoch sourceEpoch of
                     None \<Rightarrow> None
                   | Some (Inl p) \<Rightarrow> Some (Inl p)
                   | Some (Inr True) \<Rightarrow> Some (Inr True)
                   | Some (Inr False) \<Rightarrow>
                       surroundedLoop wsPeriod history sourceEpoch lew targetEpoch)))"
  using assms by (simp add: isNewAttSlashable_def)

text \<open>The computation fails and returns the zero root. Against the recorded vote for target
  epoch 5 with root \<open>rootA\<close> the candidate (source 4, target 5) is flagged; against a
  recorded vote whose root is the zero root the same candidate passes as not slashable.\<close>

theorem failed_signing_root_is_compared_witness:
  "signingFails (Data (attestation 4 5)) = ([], zeroRoot, Some SigningRootUnavailable)
   \<and> isNewAttSlashable 100 signingFails
       (Some (storeOf 5 [(5, \<lparr>Source = 4, SigningRoot = rootA\<rparr>)] {}))
       4 5 (attestation 4 5) = Some (Inr True)
   \<and> isNewAttSlashable 100 signingFails
       (Some (storeOf 5 [(5, \<lparr>Source = 4, SigningRoot = zeroRoot\<rparr>)] {}))
       4 5 (attestation 4 5) = Some (Inr False)"
proof -
  let ?a = "storeOf 5 [(5, \<lparr>Source = 4, SigningRoot = rootA\<rparr>)] {}"
  let ?z = "storeOf 5 [(5, \<lparr>Source = 4, SigningRoot = zeroRoot\<rparr>)] {}"
  have g: "signingFails (Data (attestation 4 5)) = ([], zeroRoot, Some SigningRootUnavailable)"
    by (simp add: signingFails_def)
  have la: "GetLatestEpochWritten ?a = Inr 5" and lz: "GetLatestEpochWritten ?z = Inr 5"
    by (simp_all add: GetLatestEpochWritten_def storeOf_def)
  have np: "\<not> sint (5 :: uint64) \<le> sint (5 - 100 :: uint64)"
    by simp
  have ta: "GetTargetData 100 ?a 5 = Inr (Some \<lparr>Source = 4, SigningRoot = rootA\<rparr>)"
    and tz: "GetTargetData 100 ?z 5 = Inr (Some \<lparr>Source = 4, SigningRoot = zeroRoot\<rparr>)"
    by (simp_all add: GetTargetData_def storeOf_def)
  have ne: "zeroRoot \<noteq> rootA"
    by (simp add: zeroRoot_def rootA_def)
  have loops: "(case surroundingLoop 100 ?z 4 5 4 of
                  None \<Rightarrow> None
                | Some (Inl p) \<Rightarrow> Some (Inl p)
                | Some (Inr True) \<Rightarrow> Some (Inr True)
                | Some (Inr False) \<Rightarrow> surroundedLoop 100 ?z 4 5 5) = Some (Inr False)"
    by code_simp
  from failed_signing_root_is_compared [where getDomainAndSigningRoot = signingFails
      and indexedAtt = "attestation 4 5" and wsPeriod = 100 and history = ?a
      and lew = 5 and targetEpoch = 5 and sourceEpoch = 4
      and vote = "\<lparr>Source = 4, SigningRoot = rootA\<rparr>", OF g, THEN conjunct2]
  have a: "isNewAttSlashable 100 signingFails (Some ?a) 4 5 (attestation 4 5) = Some (Inr True)"
    using la np ta ne by simp
  from failed_signing_root_is_compared [where getDomainAndSigningRoot = signingFails
      and indexedAtt = "attestation 4 5" and wsPeriod = 100 and history = ?z
      and lew = 5 and targetEpoch = 5 and sourceEpoch = 4
      and vote = "\<lparr>Source = 4, SigningRoot = zeroRoot\<rparr>", OF g, THEN conjunct2]
  have z: "isNewAttSlashable 100 signingFails (Some ?z) 4 5 (attestation 4 5) = Some (Inr False)"
    using lz np tz loops by simp
  show ?thesis
    using g a z by simp
qed

subsection \<open>Auxiliary facts about the store and the eviction loop\<close>

lemma word_le_step: "(i::uint64) < t \<Longrightarrow> (i \<le> j) = (j = i \<or> i + 1 \<le> j)"
  by (metis inc_le interval_class.inc_less_eq_imp_less word_le_less_eq)

lemma word_mod_mod_same: "(a::uint64) mod b mod b = a mod b"
  by (simp add: word_unat_eq_iff unat_mod)

lemma SetTargetData_Inr:
  "SetTargetData wsPeriod history target historyData = Inr history' \<Longrightarrow>
     history' = history\<lparr>entries := (entries history)(target mod wsPeriod := historyData)\<rparr>"
  by (simp add: SetTargetData_def split: if_splits)

lemma markLoop_result:
  "markLoop wsPeriod history targetEpoch maxToWrite i = Inr (Inr history') \<Longrightarrow>
   history' = history\<lparr>entries := \<lambda>slot.
      if \<exists>j. i \<le> j \<and> j < targetEpoch \<and> j \<le> maxToWrite \<and> j mod wsPeriod = slot then None
      else entries history slot\<rparr>"
proof (induction wsPeriod history targetEpoch maxToWrite i rule: markLoop.induct)
  case (1 wsPeriod history targetEpoch maxToWrite i)
  show ?case
  proof (cases "i < targetEpoch \<and> i \<le> maxToWrite")
    case False
    then have "(\<lambda>slot. if \<exists>j. i \<le> j \<and> j < targetEpoch \<and> j \<le> maxToWrite \<and> j mod wsPeriod = slot
                       then None else entries history slot) = entries history"
      by (auto simp: fun_eq_iff)
    moreover have "history' = history"
      using "1.prems" False by (subst (asm) markLoop.simps) simp
    ultimately show ?thesis by simp
  next
    case True
    then have nz: "wsPeriod \<noteq> 0"
      using "1.prems" by (subst (asm) markLoop.simps) (simp split: if_splits)
    obtain h1 where h1: "SetTargetData wsPeriod history (i mod wsPeriod) None = Inr h1"
      and rec: "markLoop wsPeriod h1 targetEpoch maxToWrite (i + 1) = Inr (Inr history')"
      using "1.prems" True nz
      by (subst (asm) markLoop.simps) (simp split: sum.splits)
    have h1_eq: "h1 = history\<lparr>entries := (entries history)(i mod wsPeriod := None)\<rparr>"
      using SetTargetData_Inr [OF h1] by (simp add: word_mod_mod_same)
    have step: "(i \<le> j) = (j = i \<or> i + 1 \<le> j)" for j
      using True word_le_step by blast
    have ex_split: "(\<exists>j. i \<le> j \<and> j < targetEpoch \<and> j \<le> maxToWrite \<and> j mod wsPeriod = slot)
        = (i mod wsPeriod = slot \<or>
           (\<exists>j. i + 1 \<le> j \<and> j < targetEpoch \<and> j \<le> maxToWrite \<and> j mod wsPeriod = slot))"
      for slot
    proof
      assume "\<exists>j. i \<le> j \<and> j < targetEpoch \<and> j \<le> maxToWrite \<and> j mod wsPeriod = slot"
      then obtain j where "i \<le> j" "j < targetEpoch" "j \<le> maxToWrite" "j mod wsPeriod = slot"
        by blast
      then show "i mod wsPeriod = slot \<or>
           (\<exists>j. i + 1 \<le> j \<and> j < targetEpoch \<and> j \<le> maxToWrite \<and> j mod wsPeriod = slot)"
        using step [of j] by blast
    next
      assume "i mod wsPeriod = slot \<or>
           (\<exists>j. i + 1 \<le> j \<and> j < targetEpoch \<and> j \<le> maxToWrite \<and> j mod wsPeriod = slot)"
      then show "\<exists>j. i \<le> j \<and> j < targetEpoch \<and> j \<le> maxToWrite \<and> j mod wsPeriod = slot"
        using True step by blast
    qed
    have "history' = h1\<lparr>entries := \<lambda>slot.
      if \<exists>j. i + 1 \<le> j \<and> j < targetEpoch \<and> j \<le> maxToWrite \<and> j mod wsPeriod = slot then None
      else entries h1 slot\<rparr>"
      using "1.IH" [OF True nz h1 rec] .
    also have "\<dots> = history\<lparr>entries := \<lambda>slot.
      if \<exists>j. i + 1 \<le> j \<and> j < targetEpoch \<and> j \<le> maxToWrite \<and> j mod wsPeriod = slot then None
      else ((entries history)(i mod wsPeriod := None)) slot\<rparr>"
      by (simp add: h1_eq cong: if_cong)
    also have "(\<lambda>slot.
      if \<exists>j. i + 1 \<le> j \<and> j < targetEpoch \<and> j \<le> maxToWrite \<and> j mod wsPeriod = slot then None
      else ((entries history)(i mod wsPeriod := None)) slot)
      = (\<lambda>slot. if \<exists>j. i \<le> j \<and> j < targetEpoch \<and> j \<le> maxToWrite \<and> j mod wsPeriod = slot
                 then None else entries history slot)"
      unfolding ex_split by (rule ext) auto
    finally show ?thesis .
  qed
qed

lemma markLoop_returns:
  "wsPeriod \<noteq> 0 \<Longrightarrow> faults history = {} \<Longrightarrow>
   \<exists>history'. markLoop wsPeriod history targetEpoch maxToWrite i = Inr (Inr history')"
proof (induction wsPeriod history targetEpoch maxToWrite i rule: markLoop.induct)
  case (1 wsPeriod history targetEpoch maxToWrite i)
  show ?case
  proof (cases "i < targetEpoch \<and> i \<le> maxToWrite")
    case False
    then show ?thesis by (subst markLoop.simps) auto
  next
    case True
    let ?h1 = "history\<lparr>entries := (entries history)(i mod wsPeriod mod wsPeriod := None)\<rparr>"
    have h1: "SetTargetData wsPeriod history (i mod wsPeriod) None = Inr ?h1"
      using "1.prems" by (simp add: SetTargetData_def)
    have "\<exists>history'. markLoop wsPeriod ?h1 targetEpoch maxToWrite (i + 1) = Inr (Inr history')"
      using "1.IH" [OF True "1.prems"(1) h1 "1.prems"(1)] "1.prems"(2) by simp
    then show ?thesis
      using True "1.prems"(1) h1 by (subst markLoop.simps) simp
  qed
qed


lemma SetLatestEpochWritten_Inr:
  "SetLatestEpochWritten history e = Inr history' \<Longrightarrow>
     history' = history\<lparr>latestEpochWritten := e\<rparr>"
  by (simp add: SetLatestEpochWritten_def split: if_splits)

lemma mark_reads_lew:
  assumes "markAttestationForTargetEpoch wsPeriod (Some history) sourceEpoch targetEpoch
             = Inr (Some history')"
  shows "GetLatestEpochWritten history = Inr (latestEpochWritten history)" and "wsPeriod \<noteq> 0"
proof -
  show "GetLatestEpochWritten history = Inr (latestEpochWritten history)"
    using assms
    by (simp add: markAttestationForTargetEpoch_def GetLatestEpochWritten_def split: if_splits)
  show "wsPeriod \<noteq> 0"
    using assms
    by (auto simp: markAttestationForTargetEpoch_def split: sum.splits if_splits)
qed

lemma mark_behind:
  assumes "markAttestationForTargetEpoch wsPeriod (Some history) sourceEpoch targetEpoch
             = Inr (Some history')"
    and "targetEpoch \<le> latestEpochWritten history"
  shows "history' = history\<lparr>entries := (entries history)
           (targetEpoch mod wsPeriod := Some \<lparr>Source = sourceEpoch, SigningRoot = []\<rparr>)\<rparr>"
proof -
  have "SetTargetData wsPeriod history (targetEpoch mod wsPeriod)
          (Some \<lparr>Source = sourceEpoch, SigningRoot = []\<rparr>) = Inr history'"
    using assms mark_reads_lew [OF assms(1)]
    by (simp add: markAttestationForTargetEpoch_def not_less [symmetric] split: sum.splits)
  from SetTargetData_Inr [OF this] show ?thesis
    by (simp add: word_mod_mod_same)
qed

lemma mark_ahead:
  assumes "markAttestationForTargetEpoch wsPeriod (Some history) sourceEpoch targetEpoch
             = Inr (Some history')"
    and "latestEpochWritten history < targetEpoch"
  shows "\<exists>h1. markLoop wsPeriod history targetEpoch (latestEpochWritten history + wsPeriod)
                 (latestEpochWritten history + 1) = Inr (Inr h1)
            \<and> history' = h1\<lparr>latestEpochWritten := targetEpoch,
                 entries := (entries h1)
                   (targetEpoch mod wsPeriod := Some \<lparr>Source = sourceEpoch, SigningRoot = []\<rparr>)\<rparr>"
proof -
  note r = mark_reads_lew [OF assms(1)]
  obtain h1 where h1: "markLoop wsPeriod history targetEpoch
      (latestEpochWritten history + wsPeriod) (latestEpochWritten history + 1) = Inr (Inr h1)"
    using assms r
    by (auto simp: markAttestationForTargetEpoch_def split: sum.splits)
  obtain h2 where h2: "SetLatestEpochWritten h1 targetEpoch = Inr h2"
    using assms r h1
    by (auto simp: markAttestationForTargetEpoch_def split: sum.splits)
  have "SetTargetData wsPeriod h2 (targetEpoch mod wsPeriod)
          (Some \<lparr>Source = sourceEpoch, SigningRoot = []\<rparr>) = Inr history'"
    using assms r h1 h2
    by (auto simp: markAttestationForTargetEpoch_def split: sum.splits)
  from SetTargetData_Inr [OF this] SetLatestEpochWritten_Inr [OF h2] h1 show ?thesis
    by (simp add: word_mod_mod_same)
qed

lemma word_succ_le_iff: "(l::uint64) < t \<Longrightarrow> (l + 1 \<le> j) = (l < j)"
  by (metis inc_le interval_class.inc_less_eq_imp_less word_le_less_eq)

lemma mark_returns:
  assumes "faults history = {}" and "wsPeriod \<noteq> 0"
  shows "\<exists>history'. markAttestationForTargetEpoch wsPeriod (Some history) sourceEpoch targetEpoch
           = Inr (Some history')"
proof -
  obtain h1 where h1: "markLoop wsPeriod history targetEpoch
      (latestEpochWritten history + wsPeriod) (latestEpochWritten history + 1) = Inr (Inr h1)"
    using markLoop_returns [OF assms(2) assms(1)] by blast
  have "faults h1 = {}"
    using markLoop_result [OF h1] assms(1) by simp
  then show ?thesis
    using assms h1
    by (simp add: markAttestationForTargetEpoch_def GetLatestEpochWritten_def
        SetLatestEpochWritten_def SetTargetData_def)
qed

lemma mark_keeps_faults:
  assumes "markAttestationForTargetEpoch wsPeriod (Some history) sourceEpoch targetEpoch
             = Inr (Some history')"
  shows "faults history' = faults history"
proof (cases "latestEpochWritten history < targetEpoch")
  case True
  obtain h1 where h1: "markLoop wsPeriod history targetEpoch
      (latestEpochWritten history + wsPeriod) (latestEpochWritten history + 1) = Inr (Inr h1)"
    and h': "history' = h1\<lparr>latestEpochWritten := targetEpoch,
                 entries := (entries h1)
                   (targetEpoch mod wsPeriod := Some \<lparr>Source = sourceEpoch, SigningRoot = []\<rparr>)\<rparr>"
    using mark_ahead [OF assms True] by blast
  have "faults h1 = faults history"
    using markLoop_result [OF h1] by simp
  then show ?thesis
    by (simp add: h')
next
  case False
  then have "targetEpoch \<le> latestEpochWritten history" by simp
  from mark_behind [OF assms this] show ?thesis by simp
qed

lemma mark_writes_entry:
  assumes "markAttestationForTargetEpoch wsPeriod (Some history) sourceEpoch targetEpoch
             = Inr (Some history')"
  shows "entries history' (targetEpoch mod wsPeriod)
           = Some \<lparr>Source = sourceEpoch, SigningRoot = []\<rparr>"
proof (cases "latestEpochWritten history < targetEpoch")
  case True
  from mark_ahead [OF assms True] show ?thesis by auto
next
  case False
  then have "targetEpoch \<le> latestEpochWritten history" by simp
  from mark_behind [OF assms this] show ?thesis by simp
qed

subsection \<open>The high-water mark\<close>

text \<open>C9. Whenever \<^verbatim>\<open>markAttestationForTargetEpoch\<close> returns a store, for any source and
  target epoch (ahead of or behind the high-water mark), the \<open>latestEpochWritten\<close> of the
  returned store is at least the \<open>latestEpochWritten\<close> of the store it was given.\<close>

theorem mark_latest_epoch_monotone:
  assumes "markAttestationForTargetEpoch wsPeriod (Some history) sourceEpoch targetEpoch
             = Inr (Some history')"
  shows "latestEpochWritten history \<le> latestEpochWritten history'"
proof (cases "latestEpochWritten history < targetEpoch")
  case True
  obtain h1 where "history' = h1\<lparr>latestEpochWritten := targetEpoch,
                 entries := (entries h1)
                   (targetEpoch mod wsPeriod := Some \<lparr>Source = sourceEpoch, SigningRoot = []\<rparr>)\<rparr>"
    using mark_ahead [OF assms True] by blast
  then have "latestEpochWritten history' = targetEpoch" by simp
  with True show ?thesis by simp
next
  case False
  then have "targetEpoch \<le> latestEpochWritten history" by simp
  from mark_behind [OF assms this] show ?thesis by simp
qed


theorem mark_latest_epoch_monotone_witness:
  "latestAfterMark 100 (storeOf 1000 [] {}) 1049 1050 \<noteq> None
   \<and> latestEpochWritten (storeOf 1000 [] {})
       \<le> the (latestAfterMark 100 (storeOf 1000 [] {}) 1049 1050)
   \<and> latestAfterMark 100 (storeOf 1000 [] {}) 949 950 \<noteq> None
   \<and> latestEpochWritten (storeOf 1000 [] {})
       \<le> the (latestAfterMark 100 (storeOf 1000 [] {}) 949 950)"
proof -
  have f: "faults (storeOf 1000 [] {}) = {}" and nz: "(100 :: uint64) \<noteq> 0"
    by (simp_all add: storeOf_def)
  obtain h1 where h1: "markAttestationForTargetEpoch 100 (Some (storeOf 1000 [] {})) 1049 1050
      = Inr (Some h1)"
    using mark_returns [OF f nz] by blast
  obtain h2 where h2: "markAttestationForTargetEpoch 100 (Some (storeOf 1000 [] {})) 949 950
      = Inr (Some h2)"
    using mark_returns [OF f nz] by blast
  show ?thesis
    using mark_latest_epoch_monotone [OF h1] mark_latest_epoch_monotone [OF h2]
    by (simp add: latestAfterMark_def h1 h2)
qed

subsection \<open>Sliding the window\<close>

text \<open>C7, as amended. If \<^verbatim>\<open>markAttestationForTargetEpoch\<close> returns a store for a target
  epoch \<open>T\<close> ahead of \<open>latestEpochWritten = L\<close>, the returned store is the given one with
  \<open>latestEpochWritten\<close> set to \<open>T\<close>, the new entry (source epoch, no signing root) in slot
  \<open>T mod wsPeriod\<close>, the slots \<open>i mod wsPeriod\<close> of exactly the epochs \<open>i\<close> with \<open>L < i\<close>,
  \<open>i < T\<close> and \<open>i \<le> L + wsPeriod\<close> (the sum taken in \<^verbatim>\<open>uint64\<close>) absent, and every other slot
  unchanged.\<close>

theorem mark_slides_window:
  assumes "markAttestationForTargetEpoch wsPeriod (Some history) sourceEpoch targetEpoch
             = Inr (Some history')"
    and "latestEpochWritten history < targetEpoch"
  shows "history' = history
           \<lparr>latestEpochWritten := targetEpoch,
            entries := \<lambda>slot.
              if slot = targetEpoch mod wsPeriod
              then Some \<lparr>Source = sourceEpoch, SigningRoot = []\<rparr>
              else if \<exists>i. latestEpochWritten history < i \<and> i < targetEpoch \<and>
                          i \<le> latestEpochWritten history + wsPeriod \<and> i mod wsPeriod = slot
              then None
              else entries history slot\<rparr>"
proof -
  obtain h1 where h1: "markLoop wsPeriod history targetEpoch
      (latestEpochWritten history + wsPeriod) (latestEpochWritten history + 1) = Inr (Inr h1)"
    and h': "history' = h1\<lparr>latestEpochWritten := targetEpoch,
                 entries := (entries h1)
                   (targetEpoch mod wsPeriod := Some \<lparr>Source = sourceEpoch, SigningRoot = []\<rparr>)\<rparr>"
    using mark_ahead [OF assms] by blast
  have "(latestEpochWritten history + 1 \<le> j) = (latestEpochWritten history < j)" for j
    using assms(2) by (rule word_succ_le_iff)
  with markLoop_result [OF h1]
  have "h1 = history\<lparr>entries := \<lambda>slot.
      if \<exists>j. latestEpochWritten history < j \<and> j < targetEpoch \<and>
              j \<le> latestEpochWritten history + wsPeriod \<and> j mod wsPeriod = slot
      then None else entries history slot\<rparr>"
    by simp
  then show ?thesis
    unfolding h' by (auto simp: fun_eq_iff)
qed

text \<open>Recording target epoch 1050 with \<open>latestEpochWritten = 1000\<close> and \<open>wsPeriod = 100\<close>:
  the mark becomes 1050, slot 49 (epoch 1049, which held the vote of epoch 949) is absent and
  slot 50 holds the new entry.\<close>

theorem mark_slides_window_witness:
  "latestAfterMark 100
      (storeOf 1000 [(0, \<lparr>Source = 999, SigningRoot = []\<rparr>),
                     (49, \<lparr>Source = 948, SigningRoot = []\<rparr>)] {}) 1049 1050 = Some 1050
   \<and> entryAfterMark 100
      (storeOf 1000 [(0, \<lparr>Source = 999, SigningRoot = []\<rparr>),
                     (49, \<lparr>Source = 948, SigningRoot = []\<rparr>)] {}) 1049 1050 49 = Some None
   \<and> entryAfterMark 100
      (storeOf 1000 [(0, \<lparr>Source = 999, SigningRoot = []\<rparr>),
                     (49, \<lparr>Source = 948, SigningRoot = []\<rparr>)] {}) 1049 1050 50
       = Some (Some \<lparr>Source = 1049, SigningRoot = []\<rparr>)"
proof -
  let ?h = "storeOf 1000 [(0, \<lparr>Source = 999, SigningRoot = []\<rparr>),
                          (49, \<lparr>Source = 948, SigningRoot = []\<rparr>)] {}"
  have f: "faults ?h = {}" and nz: "(100 :: uint64) \<noteq> 0"
    by (simp_all add: storeOf_def)
  obtain h' where r: "markAttestationForTargetEpoch 100 (Some ?h) 1049 1050 = Inr (Some h')"
    using mark_returns [OF f nz] by blast
  have lt: "latestEpochWritten ?h < 1050"
    by (simp add: storeOf_def)
  have ev: "\<exists>i. latestEpochWritten ?h < i \<and> i < 1050 \<and> i \<le> latestEpochWritten ?h + 100
                \<and> i mod 100 = (49 :: uint64)"
    by (rule exI [of _ 1049]) (simp add: storeOf_def)
  note e = mark_slides_window [OF r lt]
  have "latestEpochWritten h' = 1050"
    by (subst e) simp
  moreover have "entries h' 49 = None"
    using ev by (subst e) simp
  moreover have "entries h' 50 = Some \<lparr>Source = 1049, SigningRoot = []\<rparr>"
    by (subst e) simp
  ultimately show ?thesis
    by (simp add: latestAfterMark_def entryAfterMark_def r)
qed

text \<open>C7, as stated, fails when the target is more than one period ahead. With
  \<open>wsPeriod = 100\<close>, \<open>latestEpochWritten = 1000\<close> and target epoch 1101, slot 0 holds the vote
  of epoch 1000; it is not the slot of any epoch strictly between 1000 and
  \<open>min(1101, 1100)\<close>, nor the slot of the target, yet the loop of lines 136--142 also runs
  for \<open>i = 1100\<close> and leaves slot 0 absent.\<close>

theorem mark_slides_window_counterexample:
  "entries (storeOf 1000 [(0, \<lparr>Source = 999, SigningRoot = []\<rparr>)] {}) 0
     = Some \<lparr>Source = 999, SigningRoot = []\<rparr>
   \<and> 0 \<notin> set (evictedSlotsAsSpecified 100 1000 1101)
   \<and> (1101 :: uint64) mod 100 \<noteq> 0
   \<and> entryAfterMark 100 (storeOf 1000 [(0, \<lparr>Source = 999, SigningRoot = []\<rparr>)] {})
         1100 1101 0 = Some None"
  by code_simp

subsection \<open>Checking a candidate again after it was recorded\<close>

text \<open>C3, as amended. If a candidate is recorded by \<^verbatim>\<open>markAttestationForTargetEpoch\<close>
  (which returns the updated store) and the entry of its target epoch can be read, the
  updated store holds a vote for the candidate's target epoch with the candidate's source
  epoch, and \<^verbatim>\<open>isNewAttSlashable\<close> for the same candidate on the updated store returns
  \<^verbatim>\<open>false\<close> when the target epoch is at or below \<open>latestEpochWritten - wsPeriod\<close> of the
  updated store (signed comparison of line 83), and returns \<^verbatim>\<open>true\<close> when it is not and the
  candidate's signing root differs from the signing root held by that vote.\<close>

theorem recorded_candidate_flagged:
  assumes "markAttestationForTargetEpoch wsPeriod (Some history) sourceEpoch targetEpoch
             = Inr (Some history')"
    and "ReadTargetData (targetEpoch mod wsPeriod) \<notin> faults history"
  shows "\<exists>vote. GetTargetData wsPeriod history' targetEpoch = Inr (Some vote)
      \<and> Source vote = sourceEpoch
      \<and> (sint targetEpoch \<le> sint (latestEpochWritten history' - wsPeriod) \<longrightarrow>
           isNewAttSlashable wsPeriod getDomainAndSigningRoot (Some history') sourceEpoch
             targetEpoch indexedAtt = Some (Inr False))
      \<and> (\<not> sint targetEpoch \<le> sint (latestEpochWritten history' - wsPeriod) \<and>
          fst (snd (getDomainAndSigningRoot (Data indexedAtt))) \<noteq> SigningRoot vote \<longrightarrow>
           isNewAttSlashable wsPeriod getDomainAndSigningRoot (Some history') sourceEpoch
             targetEpoch indexedAtt = Some (Inr True))"
proof -
  have f: "faults history' = faults history"
    using assms(1) by (rule mark_keeps_faults)
  have "ReadLatestEpochWritten \<notin> faults history"
    using mark_reads_lew(1) [OF assms(1)]
    by (simp add: GetLatestEpochWritten_def split: if_splits)
  then have lew: "GetLatestEpochWritten history' = Inr (latestEpochWritten history')"
    by (simp add: GetLatestEpochWritten_def f)
  obtain vote where e: "entries history' (targetEpoch mod wsPeriod) = Some vote"
    and src: "Source vote = sourceEpoch"
    using mark_writes_entry [OF assms(1)] by simp
  have td: "GetTargetData wsPeriod history' targetEpoch = Inr (Some vote)"
    using assms(2) e by (simp add: GetTargetData_def f)
  obtain d sr err where g: "getDomainAndSigningRoot (Data indexedAtt) = (d, sr, err)"
    by (cases "getDomainAndSigningRoot (Data indexedAtt)") auto
  have pruned: "sint targetEpoch \<le> sint (latestEpochWritten history' - wsPeriod) \<longrightarrow>
      isNewAttSlashable wsPeriod getDomainAndSigningRoot (Some history') sourceEpoch
        targetEpoch indexedAtt = Some (Inr False)"
    by (simp add: isNewAttSlashable_def lew g)
  have flagged: "\<not> sint targetEpoch \<le> sint (latestEpochWritten history' - wsPeriod) \<and>
      fst (snd (getDomainAndSigningRoot (Data indexedAtt))) \<noteq> SigningRoot vote \<longrightarrow>
      isNewAttSlashable wsPeriod getDomainAndSigningRoot (Some history') sourceEpoch
        targetEpoch indexedAtt = Some (Inr True)"
    by (simp add: isNewAttSlashable_def lew td g)
  from td src pruned flagged show ?thesis
    by blast
qed

text \<open>With \<open>wsPeriod = 100\<close>: after the vote (source 4, target 5) is recorded on a store with
  \<open>latestEpochWritten = 4\<close>, the same candidate with the signing root \<open>rootA\<close>, which differs
  from the root held by the recorded vote, is flagged; after the vote (source 898, target
  899) is recorded on a store with \<open>latestEpochWritten = 1000\<close>, the same candidate is not.\<close>

theorem recorded_candidate_flagged_witness:
  "checkAfterMark 100 (signsTo rootA) (storeOf 4 [(4, \<lparr>Source = 3, SigningRoot = []\<rparr>)] {})
     4 5 (attestation 4 5) = Some (Inr True)
   \<and> checkAfterMark 100 (signsTo rootA) (storeOf 1000 [] {}) 898 899 (attestation 898 899)
       = Some (Inr False)"
proof -
  let ?h = "storeOf 4 [(4, \<lparr>Source = 3, SigningRoot = []\<rparr>)] {}"
  let ?k = "storeOf 1000 [] {}"
  have f: "faults ?h = {}" "faults ?k = {}" and nz: "(100 :: uint64) \<noteq> 0"
    by (simp_all add: storeOf_def)
  obtain h' where r: "markAttestationForTargetEpoch 100 (Some ?h) 4 5 = Inr (Some h')"
    using mark_returns [OF f(1) nz] by blast
  obtain k' where q: "markAttestationForTargetEpoch 100 (Some ?k) 898 899 = Inr (Some k')"
    using mark_returns [OF f(2) nz] by blast
  have lt: "latestEpochWritten ?h < 5" and ge: "(899 :: uint64) \<le> latestEpochWritten ?k"
    by (simp_all add: storeOf_def)
  have lew: "latestEpochWritten h' = 5"
    using mark_ahead [OF r lt] by auto
  have lek: "latestEpochWritten k' = 1000"
    using mark_behind [OF q ge] by (simp add: storeOf_def)
  have a2: "ReadTargetData (5 mod 100) \<notin> faults ?h"
    and b2: "ReadTargetData (899 mod 100) \<notin> faults ?k"
    by (simp_all add: storeOf_def)
  have stored: "GetTargetData 100 h' 5 = Inr (Some \<lparr>Source = 4, SigningRoot = []\<rparr>)"
    using mark_writes_entry [OF r] mark_keeps_faults [OF r] f(1)
    by (simp add: GetTargetData_def)
  have root: "fst (snd (signsTo rootA (Data (attestation 4 5)))) \<noteq> []"
    by (simp add: signsTo_def rootA_def)
  have np: "\<not> sint (5 :: uint64) \<le> sint (latestEpochWritten h' - 100)"
    by (simp add: lew)
  have pr: "sint (899 :: uint64) \<le> sint (latestEpochWritten k' - 100)"
    by (simp add: lek)
  from recorded_candidate_flagged [where getDomainAndSigningRoot = "signsTo rootA"
      and indexedAtt = "attestation 4 5", OF r a2]
  have "isNewAttSlashable 100 (signsTo rootA) (Some h') 4 5 (attestation 4 5) = Some (Inr True)"
    using stored root np by auto
  moreover from recorded_candidate_flagged [where getDomainAndSigningRoot = "signsTo rootA"
      and indexedAtt = "attestation 898 899", OF q b2]
  have "isNewAttSlashable 100 (signsTo rootA) (Some k') 898 899 (attestation 898 899)
          = Some (Inr False)"
    using pr by auto
  ultimately show ?thesis
    by (simp add: checkAfterMark_def r q)
qed

text \<open>C3, as stated, fails for a candidate in the pruned range. With \<open>wsPeriod = 100\<close> and
  \<open>latestEpochWritten = 1000\<close> the candidate with target epoch 899 is not slashable, it is
  recorded in slot 99, and the check on the updated store still answers "not slashable".\<close>

theorem recorded_candidate_flagged_counterexample:
  "isNewAttSlashable 100 (signsTo rootA) (Some (storeOf 1000 [] {})) 898 899
     (attestation 898 899) = Some (Inr False)
   \<and> entryAfterMark 100 (storeOf 1000 [] {}) 898 899 99
       = Some (Some \<lparr>Source = 898, SigningRoot = []\<rparr>)
   \<and> checkAfterMark 100 (signsTo rootA) (storeOf 1000 [] {}) 898 899 (attestation 898 899)
       = Some (Inr False)"
  by code_simp

subsection \<open>Double votes\<close>

text \<open>C2: the code at the failing input. On the empty store (\<open>wsPeriod = 100\<close>) the vote with
  source epoch 4 and target epoch 5 is recorded; the entry written for target epoch 5 has
  the source epoch and an empty signing root, since line 149 builds
  \<^verbatim>\<open>&kv.HistoryData{Source: sourceEpoch}\<close>. A later candidate for the same target epoch with
  the signing root \<open>rootA\<close> of the recorded vote is flagged slashable by line 93.\<close>

theorem same_root_flagged_after_mark:
  "entryAfterMark 100 (storeOf 0 [] {}) 4 5 5 = Some (Some \<lparr>Source = 4, SigningRoot = []\<rparr>)
   \<and> checkAfterMark 100 (signsTo rootA) (storeOf 0 [] {}) 4 5 (attestation 4 5)
       = Some (Inr True)"
  by code_simp

subsection \<open>The bounded lookup\<close>

text \<open>What \<^verbatim>\<open>safeTargetToSource\<close> returns: a vote exactly when both reads succeed, the
  epoch is at most \<open>latestEpochWritten\<close> and not below \<open>latestEpochWritten - wsPeriod\<close>
  (signed), and the slot of the epoch holds that vote.\<close>

lemma safeTargetToSource_Some_iff:
  assumes "wsPeriod \<noteq> 0"
  shows "safeTargetToSource wsPeriod history epoch = Inr (Some vote) \<longleftrightarrow>
     ReadLatestEpochWritten \<notin> faults history \<and>
     ReadTargetData (epoch mod wsPeriod) \<notin> faults history \<and>
     epoch \<le> latestEpochWritten history \<and>
     \<not> sint epoch < sint (latestEpochWritten history - wsPeriod) \<and>
     entries history (epoch mod wsPeriod) = Some vote"
  using assms
  by (auto simp: safeTargetToSource_def GetLatestEpochWritten_def GetTargetData_def
      word_mod_mod_same not_less)

lemma safeTargetToSource_outside:
  assumes "latestEpochWritten history < epoch
           \<or> sint epoch < sint (latestEpochWritten history - wsPeriod)"
  shows "safeTargetToSource wsPeriod history epoch = Inr None"
  using assms
  by (auto simp: safeTargetToSource_def GetLatestEpochWritten_def)

text \<open>C8: the code at the failing input. With \<open>wsPeriod = 100\<close> and
  \<open>latestEpochWritten = 150\<close>, slot 50 holds the vote of epoch 150. The boundary epoch
  \<open>50 = 150 - 100\<close> is outside the window, but line 166 tests \<^verbatim>\<open><\<close> where line 83 tests
  \<^verbatim>\<open><=\<close>, and the lookup for epoch 50 returns the vote of epoch 150.\<close>

theorem boundary_epoch_returns_stale_vote:
  "(50 :: uint64) = 150 - 100
   \<and> sint (50 :: uint64) \<le> sint (150 - 100 :: uint64)
   \<and> safeTargetToSource 100 (storeOf 150 [(50, \<lparr>Source = 149, SigningRoot = []\<rparr>)] {}) 50
       = Inr (Some \<lparr>Source = 149, SigningRoot = []\<rparr>)"
  by code_simp

text \<open>The read of line 88 has the lower bound of line 83 but no upper bound. With
  \<open>wsPeriod = 100\<close> and \<open>latestEpochWritten = 1000\<close>, slot 1 holds the vote of epoch 901; the
  candidate for the next target epoch 1001 reads that slot and is flagged as a double
  vote.\<close>

lemma next_epoch_reads_previous_period:
  "latestEpochWritten (storeOf 1000 [(1, \<lparr>Source = 900, SigningRoot = rootA\<rparr>)] {}) < 1001
   \<and> GetTargetData 100 (storeOf 1000 [(1, \<lparr>Source = 900, SigningRoot = rootA\<rparr>)] {}) 1001
       = Inr (Some \<lparr>Source = 900, SigningRoot = rootA\<rparr>)
   \<and> isNewAttSlashable 100 (signsTo rootB)
       (Some (storeOf 1000 [(1, \<lparr>Source = 900, SigningRoot = rootA\<rparr>)] {}))
       1000 1001 (attestation 1000 1001) = Some (Inr True)"
  by code_simp

subsection \<open>The surrounding check\<close>

text \<open>The loop of lines 98--108 relative to the bounded lookup: for a positive period and a
  target epoch below \<open>2^64 - 1\<close> it returns, and it returns \<^verbatim>\<open>true\<close> exactly when the lookup
  of some epoch between the start and the target epoch yields a vote whose source epoch is
  greater than the candidate's.\<close>

lemma safeTargetToSource_no_panic:
  "wsPeriod \<noteq> 0 \<Longrightarrow> \<exists>r. safeTargetToSource wsPeriod history i = Inr r"
  by (simp add: safeTargetToSource_def split: sum.splits)

lemma surroundingLoop_from:
  assumes "wsPeriod \<noteq> 0" and "targetEpoch \<noteq> - 1"
  shows "surroundingLoop wsPeriod history sourceEpoch targetEpoch i
    = Some (Inr (\<exists>j. i \<le> j \<and> j \<le> targetEpoch \<and>
          (\<exists>historyBoundry. safeTargetToSource wsPeriod history j = Inr (Some historyBoundry)
                \<and> sourceEpoch < Source historyBoundry)))"
proof (induction "Suc (unat targetEpoch) - unat i" arbitrary: i)
  case 0
  then have "\<not> i \<le> targetEpoch"
    by (simp add: word_le_nat_alt)
  then show ?case
    by (subst surroundingLoop.simps) auto
next
  case (Suc n)
  then have le: "i \<le> targetEpoch"
    by (simp add: word_le_nat_alt)
  have "targetEpoch < - 1"
    using assms(2) by (simp add: word_order.not_eq_extremum)
  with le have lt: "i < - 1" by simp
  then have "unat (i + 1) = unat i + 1"
    by (metis (no_types, lifting) add.commute add_0 inc_i inc_le
        unat_plus_simple unsigned_0 unsigned_1 word_gt_0)
  with Suc.hyps(2) have "n = Suc (unat targetEpoch) - unat (i + 1)" by simp
  note IH = Suc.hyps(1) [OF this]
  have step: "(i \<le> j) = (j = i \<or> i + 1 \<le> j)" for j
    using lt by (metis inc_le interval_class.inc_less_eq_imp_less word_le_less_eq)
  obtain r where r: "safeTargetToSource wsPeriod history i = Inr r"
    using safeTargetToSource_no_panic [OF assms(1)] by blast
  show ?case
  proof (cases "\<exists>historyBoundry. r = Some historyBoundry \<and> sourceEpoch < Source historyBoundry")
    case True
    then have "\<exists>j. i \<le> j \<and> j \<le> targetEpoch \<and>
          (\<exists>historyBoundry. safeTargetToSource wsPeriod history j = Inr (Some historyBoundry)
                \<and> sourceEpoch < Source historyBoundry)"
      using r le by auto
    moreover have "surroundingLoop wsPeriod history sourceEpoch targetEpoch i = Some (Inr True)"
      using True r le by (subst surroundingLoop.simps) auto
    ultimately show ?thesis by simp
  next
    case False
    then have "surroundingLoop wsPeriod history sourceEpoch targetEpoch i
         = surroundingLoop wsPeriod history sourceEpoch targetEpoch (i + 1)"
      using r le by (subst surroundingLoop.simps) (auto split: option.splits)
    moreover have "(\<exists>j. i \<le> j \<and> j \<le> targetEpoch \<and>
          (\<exists>historyBoundry. safeTargetToSource wsPeriod history j = Inr (Some historyBoundry)
                \<and> sourceEpoch < Source historyBoundry))
       = (\<exists>j. i + 1 \<le> j \<and> j \<le> targetEpoch \<and>
          (\<exists>historyBoundry. safeTargetToSource wsPeriod history j = Inr (Some historyBoundry)
                \<and> sourceEpoch < Source historyBoundry))"
      using False r step by auto
    ultimately show ?thesis
      using IH by simp
  qed
qed

text \<open>The example of the specification: with the vote (source 2, target 5) recorded, the
  candidate (source 1, target 6) is flagged.\<close>

lemma surrounding_example:
  "isNewAttSlashable 100 (signsTo rootA)
     (Some (storeOf 5 [(5, \<lparr>Source = 2, SigningRoot = rootB\<rparr>)] {})) 1 6 (attestation 1 6)
     = Some (Inr True)"
  by code_simp

text \<open>C6: the code at the failing input. With \<open>wsPeriod = 100\<close> and
  \<open>latestEpochWritten = 150\<close> the store holds one vote, that of target epoch 150 (source
  149, slot 50). The candidate (source 40, target 60) has no recorded vote with a target
  epoch between 40 and 60, yet the loop reaches \<open>i = 50\<close>, where the lookup returns the
  vote of epoch 150 (the boundary of C8), and the candidate is flagged.\<close>

theorem surrounding_flags_boundary_vote:
  "GetTargetData 100 (storeOf 150 [(50, \<lparr>Source = 149, SigningRoot = []\<rparr>)] {}) 60 = Inr None
   \<and> surroundingLoop 100 (storeOf 150 [(50, \<lparr>Source = 149, SigningRoot = []\<rparr>)] {})
        40 60 40 = Some (Inr True)
   \<and> isNewAttSlashable 100 (signsTo rootA)
        (Some (storeOf 150 [(50, \<lparr>Source = 149, SigningRoot = []\<rparr>)] {}))
        40 60 (attestation 40 60) = Some (Inr True)"
  by code_simp

subsection \<open>The surrounded check\<close>

text \<open>The loop of lines 111--115 relative to the bounded lookup. Where the lookup yields a
  vote for every epoch from the start to \<open>latestEpochWritten\<close> (below \<open>2^64 - 1\<close>), the loop
  returns, and returns \<^verbatim>\<open>true\<close> exactly when one of these votes has a source epoch less than
  the candidate's. Where the lookup of the first epoch yields no vote, the loop panics.\<close>

lemma surroundedLoop_from:
  assumes "wsPeriod \<noteq> 0" and "lew \<noteq> - 1"
    and "\<forall>j. i \<le> j \<and> j \<le> lew \<longrightarrow> (\<exists>vote. safeTargetToSource wsPeriod history j = Inr (Some vote))"
  shows "surroundedLoop wsPeriod history sourceEpoch lew i
    = Some (Inr (\<exists>j. i \<le> j \<and> j \<le> lew \<and>
          (\<exists>vote. safeTargetToSource wsPeriod history j = Inr (Some vote)
                \<and> Source vote < sourceEpoch)))"
  using assms(3)
proof (induction "Suc (unat lew) - unat i" arbitrary: i)
  case 0
  then have "\<not> i \<le> lew"
    by (simp add: word_le_nat_alt)
  then show ?case
    by (subst surroundedLoop.simps) auto
next
  case (Suc n)
  then have le: "i \<le> lew"
    by (simp add: word_le_nat_alt)
  have "lew < - 1"
    using assms(2) by (simp add: word_order.not_eq_extremum)
  with le have lt: "i < - 1" by simp
  then have "unat (i + 1) = unat i + 1"
    by (metis (no_types, lifting) add.commute add_0 inc_i inc_le
        unat_plus_simple unsigned_0 unsigned_1 word_gt_0)
  with Suc.hyps(2) have n: "n = Suc (unat lew) - unat (i + 1)" by simp
  have step: "(i \<le> j) = (j = i \<or> i + 1 \<le> j)" for j
    using lt by (rule word_le_step)
  have present: "\<forall>j. i + 1 \<le> j \<and> j \<le> lew \<longrightarrow>
      (\<exists>vote. safeTargetToSource wsPeriod history j = Inr (Some vote))"
    using Suc.prems step by blast
  note IH = Suc.hyps(1) [OF n present]
  obtain vote where v: "safeTargetToSource wsPeriod history i = Inr (Some vote)"
    using Suc.prems le by blast
  show ?case
  proof (cases "Source vote < sourceEpoch")
    case True
    then have "\<exists>j. i \<le> j \<and> j \<le> lew \<and>
          (\<exists>vote. safeTargetToSource wsPeriod history j = Inr (Some vote)
                \<and> Source vote < sourceEpoch)"
      using v le by auto
    moreover have "surroundedLoop wsPeriod history sourceEpoch lew i = Some (Inr True)"
      using True v le by (subst surroundedLoop.simps) simp
    ultimately show ?thesis by simp
  next
    case False
    then have "surroundedLoop wsPeriod history sourceEpoch lew i
         = surroundedLoop wsPeriod history sourceEpoch lew (i + 1)"
      using v le by (subst surroundedLoop.simps) simp
    moreover have "(\<exists>j. i \<le> j \<and> j \<le> lew \<and>
          (\<exists>vote. safeTargetToSource wsPeriod history j = Inr (Some vote)
                \<and> Source vote < sourceEpoch))
       = (\<exists>j. i + 1 \<le> j \<and> j \<le> lew \<and>
          (\<exists>vote. safeTargetToSource wsPeriod history j = Inr (Some vote)
                \<and> Source vote < sourceEpoch))"
      using False v step by auto
    ultimately show ?thesis
      using IH by simp
  qed
qed

lemma surroundedLoop_absent:
  assumes "i \<le> lew" and "safeTargetToSource wsPeriod history i = Inr None"
  shows "surroundedLoop wsPeriod history sourceEpoch lew i = Some (Inl NilPointerDereference)"
  using assms by (subst surroundedLoop.simps) simp

text \<open>With the votes (source 4, target 5) and (source 1, target 6) recorded, the candidate
  (source 2, target 5) with the signing root of the recorded vote for epoch 5 is flagged as
  surrounded.\<close>

lemma surrounded_example:
  "isNewAttSlashable 100 (signsTo rootA)
     (Some (storeOf 6 [(5, \<lparr>Source = 4, SigningRoot = rootA\<rparr>),
                       (6, \<lparr>Source = 1, SigningRoot = rootB\<rparr>)] {})) 2 5 (attestation 2 5)
     = Some (Inr True)"
  by code_simp

text \<open>C5: the code at the failing input, the example of the specification. With the vote
  (source 1, target 6) recorded and \<open>wsPeriod = 100\<close>, the candidate (source 2, target 5)
  reaches the loop of lines 111--115 at \<open>i = 5\<close>; the lookup for epoch 5 yields no vote and
  line 112 reads \<^verbatim>\<open>Source\<close> through the \<^verbatim>\<open>nil\<close> pointer.\<close>

theorem surrounded_check_dereferences_nil:
  "safeTargetToSource 100 (storeOf 6 [(6, \<lparr>Source = 1, SigningRoot = []\<rparr>)] {}) 5 = Inr None
   \<and> isNewAttSlashable 100 (signsTo rootA)
        (Some (storeOf 6 [(6, \<lparr>Source = 1, SigningRoot = []\<rparr>)] {})) 2 5 (attestation 2 5)
       = Some (Inl NilPointerDereference)"
  by code_simp

end
